theory Spec2Isabelle
  imports Complex_Main
begin

section \<open>Kinematics of the Theo Jansen linkage (codigo/simulador\_jansen\_gui.py)\<close>

text \<open>
  The program computes with 64-bit floating point numbers. They are modelled as the
  reals extended by one not-a-number value \<open>NaN\<close>, which every arithmetic operation
  propagates. Rounding, overflow and the infinities are outside the model; the only
  division by a possibly variable divisor in the modelled code is guarded by the
  caller, and division by zero is mapped to \<open>NaN\<close>. Nothing is assumed of
  \<open>np.cos\<close> and \<open>np.sin\<close>: they are parameters of the model, so no property of
  the exact cosine and sine (periodicity, zeros) enters a proof.
\<close>

subsection \<open>Numbers and points\<close>

datatype fnum = NaN | Num real

fun fadd :: "fnum \<Rightarrow> fnum \<Rightarrow> fnum" where
  "fadd (Num x) (Num y) = Num (x + y)"
| "fadd _ _ = NaN"

fun fsub :: "fnum \<Rightarrow> fnum \<Rightarrow> fnum" where
  "fsub (Num x) (Num y) = Num (x - y)"
| "fsub _ _ = NaN"

fun fmul :: "fnum \<Rightarrow> fnum \<Rightarrow> fnum" where
  "fmul (Num x) (Num y) = Num (x * y)"
| "fmul _ _ = NaN"

fun fdiv :: "fnum \<Rightarrow> fnum \<Rightarrow> fnum" where
  "fdiv (Num x) (Num y) = (if y = 0 then NaN else Num (x / y))"
| "fdiv _ _ = NaN"

fun fneg :: "fnum \<Rightarrow> fnum" where
  "fneg (Num x) = Num (- x)"
| "fneg NaN = NaN"

text \<open>
  The two NumPy functions the program calls on the crank angle, as they act on the
  numbers; a NaN argument gives NaN.
\<close>

record trig =
  np_cos :: "real \<Rightarrow> real"
  np_sin :: "real \<Rightarrow> real"

fun fcos :: "trig \<Rightarrow> fnum \<Rightarrow> fnum" where
  "fcos np (Num x) = Num (np_cos np x)"
| "fcos np NaN = NaN"

fun fsin :: "trig \<Rightarrow> fnum \<Rightarrow> fnum" where
  "fsin np (Num x) = Num (np_sin np x)"
| "fsin np NaN = NaN"

fun fsqrt :: "fnum \<Rightarrow> fnum" where
  "fsqrt (Num x) = (if x < 0 then NaN else Num (sqrt x))"
| "fsqrt NaN = NaN"

text \<open>\<open>np.fmax\<close> and \<open>np.fmin\<close>: a NaN operand is ignored unless both are NaN.\<close>

fun fmax :: "fnum \<Rightarrow> fnum \<Rightarrow> fnum" where
  "fmax (Num x) (Num y) = Num (max x y)"
| "fmax NaN y = y"
| "fmax x NaN = x"

fun fmin :: "fnum \<Rightarrow> fnum \<Rightarrow> fnum" where
  "fmin (Num x) (Num y) = Num (min x y)"
| "fmin NaN y = y"
| "fmin x NaN = x"

text \<open>A point is a NumPy array of two floats.\<close>

type_synonym pt = "fnum \<times> fnum"

fun padd :: "pt \<Rightarrow> pt \<Rightarrow> pt" where
  "padd (x1, y1) (x2, y2) = (fadd x1 x2, fadd y1 y2)"

fun psub :: "pt \<Rightarrow> pt \<Rightarrow> pt" where
  "psub (x1, y1) (x2, y2) = (fsub x1 x2, fsub y1 y2)"

text \<open>\<open>np.linalg.norm\<close> of a vector of two components.\<close>

fun norm2 :: "pt \<Rightarrow> fnum" where
  "norm2 (x, y) = fsqrt (fadd (fmul x x) (fmul y y))"

subsection \<open>Errors\<close>

text \<open>
  Exceptions are values. \<open>SolverError\<close> stands for whatever the root-finder may raise.
\<close>

datatype error = KeyError string | ValueError | IndexError | SolverError

definition bind :: "error + 'a \<Rightarrow> ('a \<Rightarrow> error + 'b) \<Rightarrow> error + 'b" where
  "bind r k = (case r of Inl e \<Rightarrow> Inl e | Inr v \<Rightarrow> k v)"

text \<open>Subscripting a dict raises \<open>KeyError\<close> for a missing key.\<close>

definition getitem :: "(string \<rightharpoonup> fnum) \<Rightarrow> string \<Rightarrow> error + fnum" where
  "getitem d k = (case d k of None \<Rightarrow> Inl (KeyError k) | Some v \<Rightarrow> Inr v)"

subsection \<open>class MecanismoJansen\<close>

record mecanismo =
  L :: "string \<rightharpoonup> fnum"
  escala :: fnum
  L_scaled :: "string \<rightharpoonup> fnum"

text \<open>\<open>self.L_scaled = {k: v * self.escala for k, v in self.L.items()}\<close>\<close>

definition aplicar_escala :: "mecanismo \<Rightarrow> mecanismo" where
  "aplicar_escala self =
     self\<lparr>L_scaled := (\<lambda>k. map_option (\<lambda>v. fmul v (escala self)) (L self k))\<rparr>"

definition proporciones :: "string \<rightharpoonup> fnum" where
  "proporciones =
     [''a'' \<mapsto> Num 38.0, ''b'' \<mapsto> Num 41.5, ''c'' \<mapsto> Num 39.3, ''d'' \<mapsto> Num 40.1,
      ''e'' \<mapsto> Num 55.8, ''f'' \<mapsto> Num 39.4, ''g'' \<mapsto> Num 36.7, ''h'' \<mapsto> Num 65.7,
      ''m'' \<mapsto> Num 7.8, ''n'' \<mapsto> Num 25.0]"

text \<open>\<open>__init__\<close>: the original proportions, scale 5, scaled lengths computed.\<close>

definition init :: mecanismo where
  "init = aplicar_escala \<lparr>L = proporciones, escala = Num 5.0, L_scaled = Map.empty\<rparr>"

definition actualizar_longitud :: "string \<Rightarrow> fnum \<Rightarrow> mecanismo \<Rightarrow> mecanismo" where
  "actualizar_longitud nombre valor self =
     aplicar_escala (self\<lparr>L := (L self)(nombre \<mapsto> valor)\<rparr>)"

text \<open>
  \<open>SimuladorJansenGUI.actualizar_escala\<close>, on the mechanism it owns (the redraw
  that follows is not part of the model).
\<close>

definition actualizar_escala :: "fnum \<Rightarrow> mecanismo \<Rightarrow> mecanismo" where
  "actualizar_escala valor self = aplicar_escala (self\<lparr>escala := valor\<rparr>)"

subsection \<open>resolver\_cinematica\<close>

text \<open>The returned dict has the six fixed keys \<open>'A'\<close> to \<open>'F'\<close>.\<close>

record puntos =
  A :: pt
  B :: pt
  C :: pt
  D :: pt
  E :: pt
  F :: pt

text \<open>
  The three residual closures. Each captures two anchor points and reads two scaled
  lengths; here the captured values are arguments.
\<close>

definition ecuaciones_D :: "pt \<Rightarrow> pt \<Rightarrow> fnum \<Rightarrow> fnum \<Rightarrow> pt \<Rightarrow> fnum \<times> fnum" where
  "ecuaciones_D Cp Bp Lb Lc vars =
     (fsub (norm2 (psub vars Cp)) Lb, fsub (norm2 (psub vars Bp)) Lc)"

definition ecuaciones_E :: "pt \<Rightarrow> pt \<Rightarrow> fnum \<Rightarrow> fnum \<Rightarrow> pt \<Rightarrow> fnum \<times> fnum" where
  "ecuaciones_E Dp Bp Ld Le vars =
     (fsub (norm2 (psub vars Dp)) Ld, fsub (norm2 (psub vars Bp)) Le)"

definition ecuaciones_F :: "pt \<Rightarrow> pt \<Rightarrow> fnum \<Rightarrow> fnum \<Rightarrow> pt \<Rightarrow> fnum \<times> fnum" where
  "ecuaciones_F Ep Dp Lf Lg vars =
     (fsub (norm2 (psub vars Ep)) Lf, fsub (norm2 (psub vars Dp)) Lg)"

text \<open>
  \<open>scipy.optimize.fsolve\<close> is a parameter: called as \<open>fsolve(func, x0)\<close> it returns
  only the final point (no convergence status is requested), or raises.
\<close>

type_synonym solver = "(pt \<Rightarrow> fnum \<times> fnum) \<Rightarrow> pt \<Rightarrow> error + pt"

text \<open>
  The lengths are read in the order in which the source first subscripts them. A
  closure reads its second length when it is first evaluated, which is the first thing
  the root-finder does with it, so that lookup stands just before the call.
\<close>

definition resolver_cinematica :: "trig \<Rightarrow> solver \<Rightarrow> mecanismo \<Rightarrow> fnum \<Rightarrow> error + puntos" where
  "resolver_cinematica np fsolve self theta =
     (let Ls = L_scaled self; Ap = (Num 0, Num 0) in
      bind (getitem Ls ''m'') (\<lambda>Lm.
      bind (getitem Ls ''n'') (\<lambda>Ln.
      let Bp = (Lm, Ln) in
      bind (getitem Ls ''a'') (\<lambda>La.
      let Cp = padd Ap (fmul La (fcos np theta), fmul La (fsin np theta)) in
      bind (getitem Ls ''b'') (\<lambda>Lb.
      let D_init = padd Cp (Lb, Num 0) in
      bind (getitem Ls ''c'') (\<lambda>Lc.
      bind (fsolve (ecuaciones_D Cp Bp Lb Lc) D_init) (\<lambda>Dp.
      bind (getitem Ls ''d'') (\<lambda>Ld.
      let E_init = padd Dp (Ld, fdiv (fneg Ld) (Num 2)) in
      bind (getitem Ls ''e'') (\<lambda>Le.
      bind (fsolve (ecuaciones_E Dp Bp Ld Le) E_init) (\<lambda>Ep.
      bind (getitem Ls ''f'') (\<lambda>Lf.
      let F_init = padd Ep (Lf, fneg Lf) in
      bind (getitem Ls ''g'') (\<lambda>Lg.
      bind (fsolve (ecuaciones_F Ep Dp Lf Lg) F_init) (\<lambda>Fp.
      Inr \<lparr>A = Ap, B = Bp, C = Cp, D = Dp, E = Ep, F = Fp\<rparr>)))))))))))))"

subsection \<open>calcular\_trayectoria\<close>

text \<open>
  \<open>np.linspace(start, stop, num)\<close> with its default \<open>endpoint=True\<close>: a negative
  count raises; the samples are \<open>arange(0, num) * step + start\<close> with
  \<open>step = (stop - start) / (num - 1)\<close>, and the last one is overwritten by \<open>stop\<close>
  when there is more than one.
\<close>

definition linspace :: "fnum \<Rightarrow> fnum \<Rightarrow> int \<Rightarrow> error + fnum list" where
  "linspace start stop num =
     (if num < 0 then Inl ValueError
      else
        let dv = num - 1;
            delta = fsub stop start;
            y = map (\<lambda>i. Num (real i)) [0..<nat num];
            y1 = (if dv > 0 then
                    (let step = fdiv delta (Num (real_of_int dv)) in
                     if step = Num 0
                     then map (\<lambda>v. fmul (fdiv v (Num (real_of_int dv))) delta) y
                     else map (\<lambda>v. fmul v step) y)
                  else map (\<lambda>v. fmul v delta) y);
            y2 = map (\<lambda>v. fadd v start) y1
        in Inr (if num > 1 then y2[nat num - 1 := stop] else y2))"

definition thetas :: "int \<Rightarrow> error + fnum list" where
  "thetas n_puntos = linspace (Num 0) (fmul (Num 2) (Num pi)) n_puntos"

text \<open>One pass of the loop body: the \<open>try\<close> with its bare \<open>except\<close>.\<close>

definition muestra :: "trig \<Rightarrow> solver \<Rightarrow> mecanismo \<Rightarrow> fnum \<Rightarrow> pt" where
  "muestra np fsolve self theta =
     (case resolver_cinematica np fsolve self theta of
        Inr p \<Rightarrow> F p
      | Inl _ \<Rightarrow> (NaN, NaN))"

definition calcular_trayectoria :: "trig \<Rightarrow> solver \<Rightarrow> mecanismo \<Rightarrow> int \<Rightarrow> error + pt list" where
  "calcular_trayectoria np fsolve self n_puntos =
     bind (thetas n_puntos) (\<lambda>ts. Inr (map (muestra np fsolve self) ts))"

subsection \<open>actualizar\_informacion\<close>

text \<open>
  \<open>np.nanmax\<close> and \<open>np.nanmin\<close> reduce the array from the left with \<open>fmax\<close> and
  \<open>fmin\<close>: the result is NaN exactly when every entry is NaN; an empty array raises.
\<close>

definition nanmax :: "fnum list \<Rightarrow> error + fnum" where
  "nanmax xs = (case xs of [] \<Rightarrow> Inl ValueError | x # rest \<Rightarrow> Inr (foldl fmax x rest))"

definition nanmin :: "fnum list \<Rightarrow> error + fnum" where
  "nanmin xs = (case xs of [] \<Rightarrow> Inl ValueError | x # rest \<Rightarrow> Inr (foldl fmin x rest))"

text \<open>
  \<open>trayectoria[:, k]\<close>: the array built from an empty list has one dimension only,
  and the two-index subscript raises.
\<close>

definition columna :: "(pt \<Rightarrow> fnum) \<Rightarrow> pt list \<Rightarrow> error + fnum list" where
  "columna sel trayectoria = (if trayectoria = [] then Inl IndexError else Inr (map sel trayectoria))"

definition longitud_paso :: "pt list \<Rightarrow> error + fnum" where
  "longitud_paso trayectoria =
     bind (columna fst trayectoria) (\<lambda>xs.
     bind (nanmax xs) (\<lambda>hi.
     bind (columna fst trayectoria) (\<lambda>xs'.
     bind (nanmin xs') (\<lambda>lo.
     Inr (fdiv (fsub hi lo) (Num 10))))))"

definition altura_paso :: "pt list \<Rightarrow> error + fnum" where
  "altura_paso trayectoria =
     bind (columna snd trayectoria) (\<lambda>ys.
     bind (nanmax ys) (\<lambda>hi.
     Inr (fdiv hi (Num 10))))"

subsection \<open>The defined entries of a column\<close>

text \<open>The numbers of a column, its NaN entries left out; used to state what the metrics compute.\<close>

fun definidos :: "fnum list \<Rightarrow> real list" where
  "definidos [] = []"
| "definidos (NaN # vs) = definidos vs"
| "definidos (Num r # vs) = r # definidos vs"

subsection \<open>The sampling grid as the specification words it\<close>

text \<open>
  The specification's sampler: \<open>count\<close> angles evenly spaced over the half-open
  interval from 0 to a full turn, 0 included and the full turn excluded. It is used
  only to compare with \<open>thetas\<close>.
\<close>

definition thetas_spec :: "nat \<Rightarrow> fnum list" where
  "thetas_spec count = map (\<lambda>i. Num (real i * (2 * pi / real count))) [0..<count]"

subsection \<open>Sessions of calls on one object\<close>

text \<open>
  The object lives for the whole session and is changed in place. A call is one of the
  two setters or one of the two computing methods, and \<open>ejecutar\<close> gives the object
  after the call: the setters assign to \<open>self\<close> as defined above, while
  \<open>resolver_cinematica\<close> and \<open>calcular_trayectoria\<close> contain no assignment to
  \<open>self\<close>, to a global or to a default argument, and leave the object as it is.
  The class has no attribute besides \<open>L\<close>, \<open>escala\<close> and \<open>L_scaled\<close>.
\<close>

datatype llamada =
    Actualizar_longitud string fnum
  | Actualizar_escala fnum
  | Resolver_cinematica fnum
  | Calcular_trayectoria int

fun ejecutar :: "llamada \<Rightarrow> mecanismo \<Rightarrow> mecanismo" where
  "ejecutar (Actualizar_longitud nombre valor) self = actualizar_longitud nombre valor self"
| "ejecutar (Actualizar_escala valor) self = actualizar_escala valor self"
| "ejecutar (Resolver_cinematica theta) self = self"
| "ejecutar (Calcular_trayectoria n_puntos) self = self"


text \<open>The object after a sequence of calls, first call first.\<close>

definition sesion :: "llamada list \<Rightarrow> mecanismo \<Rightarrow> mecanismo" where
  "sesion llamadas self = foldl (\<lambda>s c. ejecutar c s) self llamadas"

subsection \<open>An instance of the trigonometric parameters\<close>

text \<open>
  The exact cosine and sine, used to run the model on concrete inputs. The runs below
  whose result depends on them have crank angle 0 only, where \<open>np.cos\<close> returns
  exactly 1 and \<open>np.sin\<close> exactly 0.
\<close>

definition trig_real :: trig where
  "trig_real = \<lparr>np_cos = cos, np_sin = sin\<rparr>"

section \<open>Properties\<close>

subsection \<open>Auxiliary facts\<close>

lemma bind_Inr [simp]: "bind (Inr v) k = k v"
  by (simp add: bind_def)

lemma bind_Inl [simp]: "bind (Inl e) k = Inl e"
  by (simp add: bind_def)

lemma getitem_Some [simp]: "d k = Some v \<Longrightarrow> getitem d k = Inr v"
  by (simp add: getitem_def)

lemma getitem_None [simp]: "d k = None \<Longrightarrow> getitem d k = Inl (KeyError k)"
  by (simp add: getitem_def)

lemma fadd_zero_left [simp]: "fadd (Num 0) x = x"
  by (cases x) simp_all

lemma fdiv_fneg_two: "fdiv (fneg x) (Num 2) = fneg (fdiv x (Num 2))"
  by (cases x) simp_all


text \<open>With the nine lengths it reads present, the solve is the chain of three root-finder calls.\<close>

lemma resolver_cinematica_present:
  assumes "L_scaled self ''m'' = Some Lm" and "L_scaled self ''n'' = Some Ln"
    and "L_scaled self ''a'' = Some La" and "L_scaled self ''b'' = Some Lb"
    and "L_scaled self ''c'' = Some Lc" and "L_scaled self ''d'' = Some Ld"
    and "L_scaled self ''e'' = Some Le" and "L_scaled self ''f'' = Some Lf"
    and "L_scaled self ''g'' = Some Lg"
  shows "resolver_cinematica np fsolve self theta =
     bind (fsolve (ecuaciones_D (fmul La (fcos np theta), fmul La (fsin np theta)) (Lm, Ln) Lb Lc)
             (padd (fmul La (fcos np theta), fmul La (fsin np theta)) (Lb, Num 0))) (\<lambda>Dp.
     bind (fsolve (ecuaciones_E Dp (Lm, Ln) Ld Le) (padd Dp (Ld, fneg (fdiv Ld (Num 2))))) (\<lambda>Ep.
     bind (fsolve (ecuaciones_F Ep Dp Lf Lg) (padd Ep (Lf, fneg Lf))) (\<lambda>Fp.
     Inr \<lparr>A = (Num 0, Num 0), B = (Lm, Ln),
          C = (fmul La (fcos np theta), fmul La (fsin np theta)), D = Dp, E = Ep, F = Fp\<rparr>)))"
  using assms by (simp add: resolver_cinematica_def fdiv_fneg_two Let_def)

text \<open>The scaled lengths after construction: the original proportions times five.\<close>

lemma init_lookups:
  "L_scaled init ''m'' = Some (Num 39)" "L_scaled init ''n'' = Some (Num 125)"
  "L_scaled init ''a'' = Some (Num 190)" "L_scaled init ''b'' = Some (Num 207.5)"
  "L_scaled init ''c'' = Some (Num 196.5)" "L_scaled init ''d'' = Some (Num 200.5)"
  "L_scaled init ''e'' = Some (Num 279)" "L_scaled init ''f'' = Some (Num 197)"
  "L_scaled init ''g'' = Some (Num 183.5)" "L_scaled init ''h'' = Some (Num 328.5)"
  by (simp_all add: init_def aplicar_escala_def proporciones_def)

lemma bind_eq_Inr_iff: "bind r k = Inr v \<longleftrightarrow> (\<exists>x. r = Inr x \<and> k x = Inr v)"
  by (cases r) simp_all

lemma getitem_eq_Inr_iff: "getitem d k = Inr v \<longleftrightarrow> d k = Some v"
  by (simp add: getitem_def split: option.split)

lemma fmul_scale: "fmul (fmul (Num k) v) (Num 1) = fmul v (Num k)"
  by (cases v) simp_all


lemma upt_4: "[0..<4] = [0, 1, 2, 3]"
  by (simp add: upt_rec)

text \<open>The solve reads nine scaled lengths and nothing else of the object.\<close>

lemma resolver_cinematica_cong:
  assumes "\<And>k. k \<in> set [''m'', ''n'', ''a'', ''b'', ''c'', ''d'', ''e'', ''f'', ''g'']
             \<Longrightarrow> L_scaled s1 k = L_scaled s2 k"
  shows "resolver_cinematica np fsolve s1 theta = resolver_cinematica np fsolve s2 theta"
proof -
  have "L_scaled s1 ''m'' = L_scaled s2 ''m''" "L_scaled s1 ''n'' = L_scaled s2 ''n''"
    "L_scaled s1 ''a'' = L_scaled s2 ''a''" "L_scaled s1 ''b'' = L_scaled s2 ''b''"
    "L_scaled s1 ''c'' = L_scaled s2 ''c''" "L_scaled s1 ''d'' = L_scaled s2 ''d''"
    "L_scaled s1 ''e'' = L_scaled s2 ''e''" "L_scaled s1 ''f'' = L_scaled s2 ''f''"
    "L_scaled s1 ''g'' = L_scaled s2 ''g''"
    by (rule assms, simp)+
  then show ?thesis
    unfolding resolver_cinematica_def Let_def getitem_def by simp
qed

lemma calcular_trayectoria_cong:
  assumes "\<And>k. k \<in> set [''m'', ''n'', ''a'', ''b'', ''c'', ''d'', ''e'', ''f'', ''g'']
             \<Longrightarrow> L_scaled s1 k = L_scaled s2 k"
  shows "calcular_trayectoria np fsolve s1 n = calcular_trayectoria np fsolve s2 n"
proof -
  have "muestra np fsolve s1 = muestra np fsolve s2"
    by (rule ext) (simp only: muestra_def resolver_cinematica_cong [OF assms])
  then show ?thesis
    by (simp only: calcular_trayectoria_def)
qed

text \<open>
  The grid of \<open>np.linspace(0, 2*np.pi, n)\<close> in closed form: sample \<open>i\<close> is
  \<open>i\<close> steps of a full turn divided by \<open>n - 1\<close> (for a single sample the
  index is 0 and so is the angle).
\<close>

lemma thetas_eq:
  "thetas n = (if n < 0 then Inl ValueError
               else Inr (map (\<lambda>i. Num (real i * (2 * pi / real_of_int (n - 1)))) [0..<nat n]))"
proof (cases "n < 0")
  case True
  then show ?thesis by (simp add: thetas_def linspace_def)
next
  case nonneg: False
  show ?thesis
  proof (cases "n \<le> 1")
    case True
    with nonneg have "n = 0 \<or> n = 1" by arith
    then show ?thesis
      by (auto simp: thetas_def linspace_def)
  next
    case False
    then have n: "1 < n" by simp
    then have last: "real (nat n - 1) * (2 * pi / real_of_int (n - 1)) = 2 * pi"
      by (simp add: of_nat_diff nat_diff_distrib)
    have "(map (\<lambda>i. Num (real i * (2 * pi / real_of_int (n - 1)))) [0..<nat n])[nat n - 1 := Num (2 * pi)]
        = map (\<lambda>i. Num (real i * (2 * pi / real_of_int (n - 1)))) [0..<nat n]"
      using n last by (intro nth_equalityI) (auto simp: nth_list_update)
    with n show ?thesis
      by (simp add: thetas_def linspace_def Let_def comp_def)
  qed
qed

lemma calcular_trayectoria_eq:
  "calcular_trayectoria np fsolve self n =
     (if n < 0 then Inl ValueError
      else Inr (map (\<lambda>i. muestra np fsolve self (Num (real i * (2 * pi / real_of_int (n - 1)))))
                  [0..<nat n]))"
  by (simp add: calcular_trayectoria_def thetas_eq comp_def)

text \<open>
  An infeasible configuration: couplers b and c set to 10 (50 after scaling), the
  other lengths original, crank angle 0. The circles around C and B do not meet, so
  the system for D has no root whatever.
\<close>

lemma lookups_bc:
  "L_scaled (actualizar_longitud ''c'' (Num 10) (actualizar_longitud ''b'' (Num 10) init)) k =
     (if k = ''c'' \<or> k = ''b'' then Some (Num 50) else L_scaled init k)"
  by (simp add: actualizar_longitud_def aplicar_escala_def init_def)

lemma no_common_point:
  fixes x y :: real
  assumes "sqrt ((x - 190) * (x - 190) + (y - 0) * (y - 0)) = 50"
    and "sqrt ((x - 39) * (x - 39) + (y - 125) * (y - 125)) = 50"
  shows False
proof -
  have "sqrt (((190 - x) + (x - 39))\<^sup>2 + ((0 - y) + (y - 125))\<^sup>2)
          \<le> sqrt ((190 - x)\<^sup>2 + (0 - y)\<^sup>2) + sqrt ((x - 39)\<^sup>2 + (y - 125)\<^sup>2)"
    by (rule real_sqrt_sum_squares_triangle_ineq)
  moreover have "(190 - x)\<^sup>2 + (0 - y)\<^sup>2 = (x - 190) * (x - 190) + (y - 0) * (y - 0)"
    by (simp add: power2_eq_square algebra_simps)
  moreover have "(x - 39)\<^sup>2 + (y - 125)\<^sup>2 = (x - 39) * (x - 39) + (y - 125) * (y - 125)"
    by (simp add: power2_eq_square)
  moreover have "((190 - x) + (x - 39))\<^sup>2 + ((0 - y) + (y - 125))\<^sup>2 = 38426"
    by (simp add: power2_eq_square)
  moreover have "100 < sqrt 38426"
    by (rule real_less_rsqrt) simp
  ultimately show False
    using assms by simp
qed


text \<open>The NaN-ignoring reductions are the maximum and minimum of the defined entries.\<close>

lemma fold_fmax_Num:
  "foldl fmax (Num a) vs = Num (Max (set (a # definidos vs)))"
proof (induction vs arbitrary: a)
  case Nil
  show ?case by simp
next
  case (Cons v vs)
  show ?case
  proof (cases v)
    case NaN
    then show ?thesis using Cons.IH [of a] by simp
  next
    case (Num r)
    have "Max (insert (max a r) (set (definidos vs))) = Max (insert a (insert r (set (definidos vs))))"
      by (cases "set (definidos vs) = {}") (simp_all add: max.assoc)
    with Num show ?thesis using Cons.IH [of "max a r"] by simp
  qed
qed

lemma fold_fmin_Num:
  "foldl fmin (Num a) vs = Num (Min (set (a # definidos vs)))"
proof (induction vs arbitrary: a)
  case Nil
  show ?case by simp
next
  case (Cons v vs)
  show ?case
  proof (cases v)
    case NaN
    then show ?thesis using Cons.IH [of a] by simp
  next
    case (Num r)
    have "Min (insert (min a r) (set (definidos vs))) = Min (insert a (insert r (set (definidos vs))))"
      by (cases "set (definidos vs) = {}") (simp_all add: min.assoc)
    with Num show ?thesis using Cons.IH [of "min a r"] by simp
  qed
qed

lemma fold_fmax_eq:
  "foldl fmax v vs = (if definidos (v # vs) = [] then NaN else Num (Max (set (definidos (v # vs)))))"
proof (induction vs arbitrary: v)
  case Nil
  show ?case by (cases v) simp_all
next
  case (Cons w vs)
  show ?case
  proof (cases v)
    case NaN
    then show ?thesis using Cons.IH [of w] by simp
  next
    case (Num a)
    then show ?thesis using fold_fmax_Num [of a "w # vs"] by simp
  qed
qed

lemma fold_fmin_eq:
  "foldl fmin v vs = (if definidos (v # vs) = [] then NaN else Num (Min (set (definidos (v # vs)))))"
proof (induction vs arbitrary: v)
  case Nil
  show ?case by (cases v) simp_all
next
  case (Cons w vs)
  show ?case
  proof (cases v)
    case NaN
    then show ?thesis using Cons.IH [of w] by simp
  next
    case (Num a)
    then show ?thesis using fold_fmin_Num [of a "w # vs"] by simp
  qed
qed

lemma nanmax_eq:
  "vs \<noteq> [] \<Longrightarrow> nanmax vs = Inr (if definidos vs = [] then NaN else Num (Max (set (definidos vs))))"
  by (cases vs) (simp_all add: nanmax_def fold_fmax_eq del: definidos.simps)

lemma nanmin_eq:
  "vs \<noteq> [] \<Longrightarrow> nanmin vs = Inr (if definidos vs = [] then NaN else Num (Min (set (definidos vs))))"
  by (cases vs) (simp_all add: nanmin_def fold_fmin_eq del: definidos.simps)


text \<open>The instance at angle 0.\<close>

lemma trig_real_zero [simp]: "np_cos trig_real 0 = 1" "np_sin trig_real 0 = 0"
  by (simp_all add: trig_real_def)

text \<open>A residual component vanishes exactly at Euclidean distance \<open>l\<close>.\<close>

lemma residual_zero_iff:
  "fsub (norm2 (psub (Num x, Num y) (Num px, Num py))) (Num l) = Num 0
     \<longleftrightarrow> sqrt ((x - px)\<^sup>2 + (y - py)\<^sup>2) = l"
proof -
  have "\<not> (x - px) * (x - px) + (y - py) * (y - py) < 0"
    by (simp add: not_less)
  then show ?thesis
    by (simp add: power2_eq_square)
qed

lemma ecuaciones_D_root_iff:
  "ecuaciones_D (Num cx, Num cy) (Num bx, Num by) (Num l1) (Num l2) (Num x, Num y) = (Num 0, Num 0)
     \<longleftrightarrow> sqrt ((x - cx)\<^sup>2 + (y - cy)\<^sup>2) = l1 \<and> sqrt ((x - bx)\<^sup>2 + (y - by)\<^sup>2) = l2"
  unfolding ecuaciones_D_def prod.inject residual_zero_iff ..

lemma ecuaciones_E_root_iff:
  "ecuaciones_E (Num cx, Num cy) (Num bx, Num by) (Num l1) (Num l2) (Num x, Num y) = (Num 0, Num 0)
     \<longleftrightarrow> sqrt ((x - cx)\<^sup>2 + (y - cy)\<^sup>2) = l1 \<and> sqrt ((x - bx)\<^sup>2 + (y - by)\<^sup>2) = l2"
  unfolding ecuaciones_E_def prod.inject residual_zero_iff ..

lemma ecuaciones_F_root_iff:
  "ecuaciones_F (Num cx, Num cy) (Num bx, Num by) (Num l1) (Num l2) (Num x, Num y) = (Num 0, Num 0)
     \<longleftrightarrow> sqrt ((x - cx)\<^sup>2 + (y - cy)\<^sup>2) = l1 \<and> sqrt ((x - bx)\<^sup>2 + (y - by)\<^sup>2) = l2"
  unfolding ecuaciones_F_def prod.inject residual_zero_iff ..


text \<open>
  A feasible configuration with integer joints: couplers 36.2, 28.6 and 40, rockers
  54.6 and 30, ternary 50, the rest original, scale 5. At crank angle 0 the joints
  D = (171, 180), E = (291, 20) and F = (411, 110) are at the required distances.
\<close>

lemma sqrt_enteros:
  "sqrt 32761 = 181" "sqrt 20449 = 143" "sqrt 40000 = 200"
  "sqrt 74529 = 273" "sqrt 22500 = 150" "sqrt 62500 = 250"
  by (rule real_sqrt_unique, simp, simp)+

text \<open>Calls on one object in sequence.\<close>

lemma sesion_Nil [simp]: "sesion [] self = self"
  by (simp add: sesion_def)

lemma sesion_Cons [simp]: "sesion (c # cs) self = sesion cs (ejecutar c self)"
  by (simp add: sesion_def)






subsection \<open>The solve pipeline\<close>

text \<open>
  C2 (as amended). For every crank angle and every set of defined scaled lengths for
  which the solve call returns, the snapshot is built by the fixed pipeline: A is the
  origin, B is the offset point (m, n), C is (a cos theta, a sin theta) in closed
  form, with the cosine and sine that NumPy computes; D is the point the root-finder
  returns for the system whose zeros are exactly the points at distance b from C and
  c from B, started at C + (b, 0); E is the point it returns for the system of the
  points at distance d from D and e from B, started at D + (d, -d/2); F is the point
  it returns for the system of the points at distance f from E and g from D, started
  at E + (f, -f). Each system is anchored on the points returned before it. A joint
  satisfies its two distance equations exactly when the returned point is a zero of
  its system, which the solve does not test.
\<close>

theorem resolver_cinematica_pipeline:
  assumes "L_scaled self ''m'' = Some (Num m)" and "L_scaled self ''n'' = Some (Num n)"
    and "L_scaled self ''a'' = Some (Num a)" and "L_scaled self ''b'' = Some (Num b)"
    and "L_scaled self ''c'' = Some (Num c)" and "L_scaled self ''d'' = Some (Num d)"
    and "L_scaled self ''e'' = Some (Num e)" and "L_scaled self ''f'' = Some (Num f)"
    and "L_scaled self ''g'' = Some (Num g)"
    and "resolver_cinematica np fsolve self (Num t) = Inr s"
  shows "A s = (Num 0, Num 0) \<and> B s = (Num m, Num n)
       \<and> C s = (Num (a * np_cos np t), Num (a * np_sin np t))
       \<and> fsolve (ecuaciones_D (C s) (B s) (Num b) (Num c))
            (Num (a * np_cos np t + b), Num (a * np_sin np t)) = Inr (D s)
       \<and> (\<forall>x y. ecuaciones_D (C s) (B s) (Num b) (Num c) (Num x, Num y) = (Num 0, Num 0) \<longleftrightarrow>
             sqrt ((x - a * np_cos np t)\<^sup>2 + (y - a * np_sin np t)\<^sup>2) = b \<and>
             sqrt ((x - m)\<^sup>2 + (y - n)\<^sup>2) = c)
       \<and> (\<forall>dx dy. D s = (Num dx, Num dy) \<longrightarrow>
             fsolve (ecuaciones_E (D s) (B s) (Num d) (Num e)) (Num (dx + d), Num (dy - d / 2)) = Inr (E s)
           \<and> (\<forall>x y. ecuaciones_E (D s) (B s) (Num d) (Num e) (Num x, Num y) = (Num 0, Num 0) \<longleftrightarrow>
                 sqrt ((x - dx)\<^sup>2 + (y - dy)\<^sup>2) = d \<and> sqrt ((x - m)\<^sup>2 + (y - n)\<^sup>2) = e))
       \<and> (\<forall>dx dy ex ey. D s = (Num dx, Num dy) \<and> E s = (Num ex, Num ey) \<longrightarrow>
             fsolve (ecuaciones_F (E s) (D s) (Num f) (Num g)) (Num (ex + f), Num (ey - f)) = Inr (F s)
           \<and> (\<forall>x y. ecuaciones_F (E s) (D s) (Num f) (Num g) (Num x, Num y) = (Num 0, Num 0) \<longleftrightarrow>
                 sqrt ((x - ex)\<^sup>2 + (y - ey)\<^sup>2) = f \<and> sqrt ((x - dx)\<^sup>2 + (y - dy)\<^sup>2) = g))"
proof -
  let ?Cp = "(Num (a * np_cos np t), Num (a * np_sin np t))"
  let ?Bp = "(Num m, Num n)"
  from assms(10) obtain Dp Ep Fp where
    dD: "fsolve (ecuaciones_D ?Cp ?Bp (Num b) (Num c)) (padd ?Cp (Num b, Num 0)) = Inr Dp"
    and eE: "fsolve (ecuaciones_E Dp ?Bp (Num d) (Num e)) (padd Dp (Num d, fneg (fdiv (Num d) (Num 2)))) = Inr Ep"
    and fF: "fsolve (ecuaciones_F Ep Dp (Num f) (Num g)) (padd Ep (Num f, fneg (Num f))) = Inr Fp"
    and s: "s = \<lparr>A = (Num 0, Num 0), B = ?Bp, C = ?Cp, D = Dp, E = Ep, F = Fp\<rparr>"
    unfolding resolver_cinematica_present [OF assms(1-9)] bind_eq_Inr_iff
    by (auto simp: )
  have 1: "A s = (Num 0, Num 0)" "B s = ?Bp" "C s = ?Cp" "D s = Dp" "E s = Ep" "F s = Fp"
    by (simp_all add: s)
  have 2: "fsolve (ecuaciones_D (C s) (B s) (Num b) (Num c))
            (Num (a * np_cos np t + b), Num (a * np_sin np t)) = Inr (D s)"
    using dD by (simp add: 1)
  have 3: "fsolve (ecuaciones_E (D s) (B s) (Num d) (Num e)) (Num (dx + d), Num (dy - d / 2)) = Inr (E s)"
    if "D s = (Num dx, Num dy)" for dx dy
    using eE that by (simp add: 1)
  have 4: "fsolve (ecuaciones_F (E s) (D s) (Num f) (Num g)) (Num (ex + f), Num (ey - f)) = Inr (F s)"
    if "E s = (Num ex, Num ey)" for ex ey
    using fF that by (simp add: 1)
  have 5: "\<forall>x y. ecuaciones_D (C s) (B s) (Num b) (Num c) (Num x, Num y) = (Num 0, Num 0) \<longleftrightarrow>
             sqrt ((x - a * np_cos np t)\<^sup>2 + (y - a * np_sin np t)\<^sup>2) = b \<and>
             sqrt ((x - m)\<^sup>2 + (y - n)\<^sup>2) = c"
    by (simp add: 1 ecuaciones_D_root_iff)
  have 6: "\<forall>x y. ecuaciones_E (D s) (B s) (Num d) (Num e) (Num x, Num y) = (Num 0, Num 0) \<longleftrightarrow>
                 sqrt ((x - dx)\<^sup>2 + (y - dy)\<^sup>2) = d \<and> sqrt ((x - m)\<^sup>2 + (y - n)\<^sup>2) = e"
    if "D s = (Num dx, Num dy)" for dx dy
    unfolding that by (simp add: 1 ecuaciones_E_root_iff)
  have 7: "\<forall>x y. ecuaciones_F (E s) (D s) (Num f) (Num g) (Num x, Num y) = (Num 0, Num 0) \<longleftrightarrow>
                 sqrt ((x - ex)\<^sup>2 + (y - ey)\<^sup>2) = f \<and> sqrt ((x - dx)\<^sup>2 + (y - dy)\<^sup>2) = g"
    if "D s = (Num dx, Num dy)" "E s = (Num ex, Num ey)" for dx dy ex ey
    unfolding that by (simp add: ecuaciones_F_root_iff)
  show ?thesis
    using 1(1,2,3) 2 3 4 5 6 7 by blast
qed


text \<open>
  The feasible configuration at crank angle 0, with a root-finder that answers each of
  the three initial guesses of the pipeline, (371, 0), (371, 80) and (441, -130), by
  the joint: the snapshot holds the joints, and each joint is a zero of its system.
\<close>

theorem resolver_cinematica_pipeline_witness:
  "resolver_cinematica trig_real (\<lambda>f x0. if x0 = (Num 371, Num 0) then Inr (Num 171, Num 180)
              else if x0 = (Num 371, Num 80) then Inr (Num 291, Num 20)
              else Inr (Num 411, Num 110))
     (actualizar_longitud ''g'' (Num 50) (actualizar_longitud ''f'' (Num 30)
       (actualizar_longitud ''e'' (Num 54.6) (actualizar_longitud ''d'' (Num 40)
       (actualizar_longitud ''c'' (Num 28.6) (actualizar_longitud ''b'' (Num 36.2) init)))))) (Num 0) =
     Inr \<lparr>A = (Num 0, Num 0), B = (Num 39, Num 125), C = (Num 190, Num 0),
          D = (Num 171, Num 180), E = (Num 291, Num 20), F = (Num 411, Num 110)\<rparr>
   \<and> ecuaciones_D (Num 190, Num 0) (Num 39, Num 125) (Num 181) (Num 143) (Num 171, Num 180) =
       (Num 0, Num 0)
   \<and> ecuaciones_E (Num 171, Num 180) (Num 39, Num 125) (Num 200) (Num 273) (Num 291, Num 20) =
       (Num 0, Num 0)
   \<and> ecuaciones_F (Num 291, Num 20) (Num 171, Num 180) (Num 150) (Num 250) (Num 411, Num 110) =
       (Num 0, Num 0)"
proof -
  let ?s = "\<lparr>A = (Num 0, Num 0), B = (Num 39, Num 125), C = (Num 190, Num 0),
          D = (Num 171, Num 180), E = (Num 291, Num 20), F = (Num 411, Num 110)\<rparr>"
  have keys:
    "L_scaled (actualizar_longitud ''g'' (Num 50) (actualizar_longitud ''f'' (Num 30)
       (actualizar_longitud ''e'' (Num 54.6) (actualizar_longitud ''d'' (Num 40)
       (actualizar_longitud ''c'' (Num 28.6) (actualizar_longitud ''b'' (Num 36.2) init)))))) ''m'' = Some (Num 39)"
    "L_scaled (actualizar_longitud ''g'' (Num 50) (actualizar_longitud ''f'' (Num 30)
       (actualizar_longitud ''e'' (Num 54.6) (actualizar_longitud ''d'' (Num 40)
       (actualizar_longitud ''c'' (Num 28.6) (actualizar_longitud ''b'' (Num 36.2) init)))))) ''n'' = Some (Num 125)"
    "L_scaled (actualizar_longitud ''g'' (Num 50) (actualizar_longitud ''f'' (Num 30)
       (actualizar_longitud ''e'' (Num 54.6) (actualizar_longitud ''d'' (Num 40)
       (actualizar_longitud ''c'' (Num 28.6) (actualizar_longitud ''b'' (Num 36.2) init)))))) ''a'' = Some (Num 190)"
    "L_scaled (actualizar_longitud ''g'' (Num 50) (actualizar_longitud ''f'' (Num 30)
       (actualizar_longitud ''e'' (Num 54.6) (actualizar_longitud ''d'' (Num 40)
       (actualizar_longitud ''c'' (Num 28.6) (actualizar_longitud ''b'' (Num 36.2) init)))))) ''b'' = Some (Num 181)"
    "L_scaled (actualizar_longitud ''g'' (Num 50) (actualizar_longitud ''f'' (Num 30)
       (actualizar_longitud ''e'' (Num 54.6) (actualizar_longitud ''d'' (Num 40)
       (actualizar_longitud ''c'' (Num 28.6) (actualizar_longitud ''b'' (Num 36.2) init)))))) ''c'' = Some (Num 143)"
    "L_scaled (actualizar_longitud ''g'' (Num 50) (actualizar_longitud ''f'' (Num 30)
       (actualizar_longitud ''e'' (Num 54.6) (actualizar_longitud ''d'' (Num 40)
       (actualizar_longitud ''c'' (Num 28.6) (actualizar_longitud ''b'' (Num 36.2) init)))))) ''d'' = Some (Num 200)"
    "L_scaled (actualizar_longitud ''g'' (Num 50) (actualizar_longitud ''f'' (Num 30)
       (actualizar_longitud ''e'' (Num 54.6) (actualizar_longitud ''d'' (Num 40)
       (actualizar_longitud ''c'' (Num 28.6) (actualizar_longitud ''b'' (Num 36.2) init)))))) ''e'' = Some (Num 273)"
    "L_scaled (actualizar_longitud ''g'' (Num 50) (actualizar_longitud ''f'' (Num 30)
       (actualizar_longitud ''e'' (Num 54.6) (actualizar_longitud ''d'' (Num 40)
       (actualizar_longitud ''c'' (Num 28.6) (actualizar_longitud ''b'' (Num 36.2) init)))))) ''f'' = Some (Num 150)"
    "L_scaled (actualizar_longitud ''g'' (Num 50) (actualizar_longitud ''f'' (Num 30)
       (actualizar_longitud ''e'' (Num 54.6) (actualizar_longitud ''d'' (Num 40)
       (actualizar_longitud ''c'' (Num 28.6) (actualizar_longitud ''b'' (Num 36.2) init)))))) ''g'' = Some (Num 250)"
    by (simp_all add: actualizar_longitud_def aplicar_escala_def init_def proporciones_def)
  have run: "resolver_cinematica trig_real (\<lambda>f x0. if x0 = (Num 371, Num 0) then Inr (Num 171, Num 180)
              else if x0 = (Num 371, Num 80) then Inr (Num 291, Num 20)
              else Inr (Num 411, Num 110))
     (actualizar_longitud ''g'' (Num 50) (actualizar_longitud ''f'' (Num 30)
       (actualizar_longitud ''e'' (Num 54.6) (actualizar_longitud ''d'' (Num 40)
       (actualizar_longitud ''c'' (Num 28.6) (actualizar_longitud ''b'' (Num 36.2) init)))))) (Num 0) = Inr ?s"
    unfolding resolver_cinematica_present [OF keys] by simp
  note pipe = resolver_cinematica_pipeline [OF keys run]
  from pipe have rD: "ecuaciones_D (C ?s) (B ?s) (Num 181) (Num 143) (Num 171, Num 180) = (Num 0, Num 0)
      \<longleftrightarrow> sqrt ((171 - 190 * np_cos trig_real 0)\<^sup>2 + (180 - 190 * np_sin trig_real 0)\<^sup>2) = 181
          \<and> sqrt ((171 - 39)\<^sup>2 + (180 - 125)\<^sup>2) = (143::real)"
    by blast
  from pipe have "\<forall>x y. ecuaciones_E (D ?s) (B ?s) (Num 200) (Num 273) (Num x, Num y) = (Num 0, Num 0) \<longleftrightarrow>
                 sqrt ((x - 171)\<^sup>2 + (y - 180)\<^sup>2) = 200 \<and> sqrt ((x - 39)\<^sup>2 + (y - 125)\<^sup>2) = 273"
    by simp
  then have rE: "ecuaciones_E (D ?s) (B ?s) (Num 200) (Num 273) (Num 291, Num 20) = (Num 0, Num 0)
      \<longleftrightarrow> sqrt ((291 - 171)\<^sup>2 + (20 - 180)\<^sup>2) = (200::real)
          \<and> sqrt ((291 - 39)\<^sup>2 + (20 - 125)\<^sup>2) = (273::real)"
    by blast
  from pipe have "\<forall>x y. ecuaciones_F (E ?s) (D ?s) (Num 150) (Num 250) (Num x, Num y) = (Num 0, Num 0) \<longleftrightarrow>
                 sqrt ((x - 291)\<^sup>2 + (y - 20)\<^sup>2) = 150 \<and> sqrt ((x - 171)\<^sup>2 + (y - 180)\<^sup>2) = 250"
    by simp
  then have rF: "ecuaciones_F (E ?s) (D ?s) (Num 150) (Num 250) (Num 411, Num 110) = (Num 0, Num 0)
      \<longleftrightarrow> sqrt ((411 - 291)\<^sup>2 + (110 - 20)\<^sup>2) = (150::real)
          \<and> sqrt ((411 - 171)\<^sup>2 + (110 - 180)\<^sup>2) = (250::real)"
    by blast
  from rD rE rF run show ?thesis
    by (simp add: sqrt_enteros)
qed

text \<open>
  C2 as stated fails. With couplers b and c set to 10 (each 50 after scaling) and
  crank angle 0, no point at all is at distance 50 from both C = (190, 0) and
  B = (39, 125), so D cannot solve its system whatever the root-finder returns; with a
  root-finder that hands back its initial guess the snapshot has D = (240, 0), whose
  distance from B is not 50.
\<close>

theorem D_unsolved_counterexample:
  "L_scaled (actualizar_longitud ''c'' (Num 10) (actualizar_longitud ''b'' (Num 10) init)) ''a'' = Some (Num 190)
   \<and> L_scaled (actualizar_longitud ''c'' (Num 10) (actualizar_longitud ''b'' (Num 10) init)) ''b'' = Some (Num 50)
   \<and> L_scaled (actualizar_longitud ''c'' (Num 10) (actualizar_longitud ''b'' (Num 10) init)) ''c'' = Some (Num 50)
   \<and> L_scaled (actualizar_longitud ''c'' (Num 10) (actualizar_longitud ''b'' (Num 10) init)) ''m'' = Some (Num 39)
   \<and> L_scaled (actualizar_longitud ''c'' (Num 10) (actualizar_longitud ''b'' (Num 10) init)) ''n'' = Some (Num 125)
   \<and> \<not> (\<exists>x y :: real. sqrt ((x - 190)\<^sup>2 + (y - 0)\<^sup>2) = 50 \<and> sqrt ((x - 39)\<^sup>2 + (y - 125)\<^sup>2) = 50)
   \<and> resolver_cinematica trig_real (\<lambda>f x0. Inr x0) (actualizar_longitud ''c'' (Num 10) (actualizar_longitud ''b'' (Num 10) init)) (Num 0) =
     Inr \<lparr>A = (Num 0, Num 0), B = (Num 39, Num 125), C = (Num 190, Num 0),
          D = (Num 240, Num 0), E = (Num 440.5, Num (-100.25)), F = (Num 637.5, Num (-297.25))\<rparr>
   \<and> sqrt ((240 - 39)\<^sup>2 + (0 - 125)\<^sup>2) \<noteq> (50::real)"
proof -
  have none: "\<not> (\<exists>x y :: real. sqrt ((x - 190)\<^sup>2 + (y - 0)\<^sup>2) = 50 \<and> sqrt ((x - 39)\<^sup>2 + (y - 125)\<^sup>2) = 50)"
    using no_common_point by (auto simp: power2_eq_square)
  then have "sqrt ((240 - 39)\<^sup>2 + (0 - 125)\<^sup>2) \<noteq> (50::real) \<or> sqrt ((240 - 190)\<^sup>2 + (0 - 0)\<^sup>2) \<noteq> (50::real)"
    by blast
  moreover have "sqrt ((240 - 190)\<^sup>2 + (0 - 0)\<^sup>2) = (50::real)"
    by (rule real_sqrt_unique) simp_all
  ultimately have "sqrt ((240 - 39)\<^sup>2 + (0 - 125)\<^sup>2) \<noteq> (50::real)"
    by blast
  with none show ?thesis
    by (simp add: resolver_cinematica_def Let_def lookups_bc init_lookups)
qed

subsection \<open>No convergence check in the solve\<close>

text \<open>
  C1 (as amended). The solve applies no convergence or residual test. Whenever a solve
  call returns a snapshot, each of D, E and F in it is exactly the point the
  root-finder returned for that joint's system, started at the initial guess built
  from the points before it; a point that is not a root is kept as a defined joint,
  and the later systems are anchored on it as returned.
\<close>

theorem resolver_cinematica_unchecked:
  assumes "resolver_cinematica np fsolve self theta = Inr s"
  shows "\<exists>Lb Lc Ld Le Lf Lg.
           L_scaled self ''b'' = Some Lb \<and> L_scaled self ''c'' = Some Lc \<and>
           L_scaled self ''d'' = Some Ld \<and> L_scaled self ''e'' = Some Le \<and>
           L_scaled self ''f'' = Some Lf \<and> L_scaled self ''g'' = Some Lg \<and>
           fsolve (ecuaciones_D (C s) (B s) Lb Lc) (padd (C s) (Lb, Num 0)) = Inr (D s) \<and>
           fsolve (ecuaciones_E (D s) (B s) Ld Le) (padd (D s) (Ld, fneg (fdiv Ld (Num 2)))) = Inr (E s) \<and>
           fsolve (ecuaciones_F (E s) (D s) Lf Lg) (padd (E s) (Lf, fneg Lf)) = Inr (F s)"
  using assms
  unfolding resolver_cinematica_def Let_def bind_eq_Inr_iff getitem_eq_Inr_iff fdiv_fneg_two
  by fastforce

text \<open>
  The amended statement at the infeasible configuration, for a root-finder that gives
  up at its initial guess: the call returns, and D is the point handed back.
\<close>

theorem resolver_cinematica_unchecked_witness:
  "resolver_cinematica trig_real (\<lambda>f x0. Inr x0)
     (actualizar_longitud ''c'' (Num 10) (actualizar_longitud ''b'' (Num 10) init)) (Num 0) =
     Inr \<lparr>A = (Num 0, Num 0), B = (Num 39, Num 125), C = (Num 190, Num 0),
          D = (Num 240, Num 0), E = (Num 440.5, Num (-100.25)), F = (Num 637.5, Num (-297.25))\<rparr>
   \<and> (\<exists>Lb Lc. L_scaled (actualizar_longitud ''c'' (Num 10) (actualizar_longitud ''b'' (Num 10) init)) ''b'' = Some Lb
        \<and> L_scaled (actualizar_longitud ''c'' (Num 10) (actualizar_longitud ''b'' (Num 10) init)) ''c'' = Some Lc
        \<and> (Inr (padd (Num 190, Num 0) (Lb, Num 0)) :: error + pt) = Inr (Num 240, Num 0))"
proof -
  have run: "resolver_cinematica trig_real (\<lambda>f x0. Inr x0)
     (actualizar_longitud ''c'' (Num 10) (actualizar_longitud ''b'' (Num 10) init)) (Num 0) =
     Inr \<lparr>A = (Num 0, Num 0), B = (Num 39, Num 125), C = (Num 190, Num 0),
          D = (Num 240, Num 0), E = (Num 440.5, Num (-100.25)), F = (Num 637.5, Num (-297.25))\<rparr>"
    by (simp add: resolver_cinematica_def Let_def lookups_bc init_lookups)
  from resolver_cinematica_unchecked [OF run] run show ?thesis
    by auto
qed

text \<open>
  C1 as stated fails. At the infeasible configuration the point returned for D has a
  residual of more than 100 in its second equation (no point has residual zero there,
  see \<open>infeasible_D_no_root\<close>), and the snapshot holds it as a defined joint, with E
  and F defined after it.
\<close>

theorem joint_kept_counterexample:
  "resolver_cinematica trig_real (\<lambda>f x0. Inr x0)
     (actualizar_longitud ''c'' (Num 10) (actualizar_longitud ''b'' (Num 10) init)) (Num 0) =
     Inr \<lparr>A = (Num 0, Num 0), B = (Num 39, Num 125), C = (Num 190, Num 0),
          D = (Num 240, Num 0), E = (Num 440.5, Num (-100.25)), F = (Num 637.5, Num (-297.25))\<rparr>
   \<and> ecuaciones_D (Num 190, Num 0) (Num 39, Num 125) (Num 50) (Num 50) (Num 240, Num 0) =
       (Num 0, Num (sqrt 56026 - 50))
   \<and> 100 < sqrt 56026 - 50"
proof -
  have "150 < sqrt 56026"
    by (rule real_less_rsqrt) simp
  then show ?thesis
    by (simp add: resolver_cinematica_def Let_def lookups_bc init_lookups ecuaciones_D_def)
qed

subsection \<open>The sweep\<close>

text \<open>
  C3 (as amended). A negative count raises \<open>ValueError\<close>. For every count \<open>n\<close> that
  is not negative the sweep uses exactly \<open>n\<close> crank angles, angle \<open>i\<close> being \<open>i\<close>
  steps of a full turn divided by \<open>n - 1\<close>: evenly spaced over the closed interval
  from 0 to a full turn, with both 0 and the full turn included when there are at
  least two (a single sample is at angle 0). The solve is run once per angle, and the
  result is the sequence of the \<open>n\<close> feet (or NaN pairs) in the order of the angles.
\<close>

theorem calcular_trayectoria_angles:
  "(n < 0 \<longrightarrow> calcular_trayectoria np fsolve self n = Inl ValueError) \<and>
   (n = 1 \<longrightarrow> calcular_trayectoria np fsolve self n = Inr [muestra np fsolve self (Num 0)]) \<and>
   (0 \<le> n \<longrightarrow>
      (\<exists>ts. thetas n = Inr ts \<and> length ts = nat n \<and>
            calcular_trayectoria np fsolve self n = Inr (map (muestra np fsolve self) ts) \<and>
            (\<forall>i < nat n. ts ! i = Num (real i * (2 * pi / real_of_int (n - 1)))) \<and>
            (2 \<le> n \<longrightarrow> ts ! 0 = Num 0 \<and> ts ! (nat n - 1) = Num (2 * pi))))"
proof (intro conjI impI)
  assume "n < 0"
  then show "calcular_trayectoria np fsolve self n = Inl ValueError"
    by (simp add: calcular_trayectoria_eq)
next
  assume "n = 1"
  then show "calcular_trayectoria np fsolve self n = Inr [muestra np fsolve self (Num 0)]"
    by (simp add: calcular_trayectoria_eq)
next
  assume n: "0 \<le> n"
  let ?ts = "map (\<lambda>i. Num (real i * (2 * pi / real_of_int (n - 1)))) [0..<nat n]"
  have 1: "thetas n = Inr ?ts"
    using n by (simp add: thetas_eq)
  have 2: "calcular_trayectoria np fsolve self n = Inr (map (muestra np fsolve self) ?ts)"
    using n by (simp add: calcular_trayectoria_eq comp_def)
  have 3: "\<forall>i < nat n. ?ts ! i = Num (real i * (2 * pi / real_of_int (n - 1)))"
    by simp
  have 4: "?ts ! 0 = Num 0 \<and> ?ts ! (nat n - 1) = Num (2 * pi)" if "2 \<le> n"
    using that by (simp add: of_nat_diff nat_diff_distrib)
  show "\<exists>ts. thetas n = Inr ts \<and> length ts = nat n \<and>
            calcular_trayectoria np fsolve self n = Inr (map (muestra np fsolve self) ts) \<and>
            (\<forall>i < nat n. ts ! i = Num (real i * (2 * pi / real_of_int (n - 1)))) \<and>
            (2 \<le> n \<longrightarrow> ts ! 0 = Num 0 \<and> ts ! (nat n - 1) = Num (2 * pi))"
    using 1 2 3 4 by (intro exI [of _ ?ts]) simp
qed

theorem calcular_trayectoria_angles_witness:
  "calcular_trayectoria trig_real (\<lambda>f x0. Inr x0) init 4 =
     Inr (map (muestra trig_real (\<lambda>f x0. Inr x0) init)
            [Num 0, Num (2 * pi / 3), Num (4 * pi / 3), Num (2 * pi)]) \<and>
   calcular_trayectoria trig_real (\<lambda>f x0. Inr x0) init 1 = Inr [muestra trig_real (\<lambda>f x0. Inr x0) init (Num 0)] \<and>
   calcular_trayectoria trig_real (\<lambda>f x0. Inr x0) init (- 1) = Inl ValueError"
  using calcular_trayectoria_angles [where n = 4 and np = trig_real and fsolve = "\<lambda>f x0. Inr x0" and self = init]
    calcular_trayectoria_angles [where n = 1 and np = trig_real and fsolve = "\<lambda>f x0. Inr x0" and self = init]
    calcular_trayectoria_angles [where n = "- 1" and np = trig_real and fsolve = "\<lambda>f x0. Inr x0" and self = init]
  by (simp add: thetas_eq upt_4)

text \<open>
  C3 as stated fails. For a count of 4 the angles are 0, a third, two thirds and the
  whole of a full turn: the full turn is sampled, and the spacing is a third of a turn,
  where the half-open grid of the specification has quarter turns and stops short of
  the full turn.
\<close>

theorem thetas_endpoint_counterexample:
  "thetas 4 = Inr [Num 0, Num (2 * pi / 3), Num (4 * pi / 3), Num (2 * pi)] \<and>
   thetas_spec 4 = [Num 0, Num (pi / 2), Num pi, Num (3 * pi / 2)] \<and>
   thetas 4 \<noteq> Inr (thetas_spec 4)"
  by (simp add: thetas_eq thetas_spec_def upt_4)





subsection \<open>Scaling, restart, and the unread length\<close>

text \<open>
  C8. For every angle, raw lengths and factor \<open>k\<close>, solving with scale factor \<open>k\<close>
  and the raw lengths gives the very snapshot of solving with scale factor 1 and the
  raw lengths multiplied by \<open>k\<close>.
\<close>

theorem resolver_cinematica_scaling:
  "resolver_cinematica np fsolve (actualizar_escala (Num k) (self\<lparr>L := raw\<rparr>)) theta =
   resolver_cinematica np fsolve
     (actualizar_escala (Num 1) (self\<lparr>L := (\<lambda>i. map_option (fmul (Num k)) (raw i))\<rparr>)) theta"
proof (rule resolver_cinematica_cong)
  fix i :: string
  show "L_scaled (actualizar_escala (Num k) (self\<lparr>L := raw\<rparr>)) i =
        L_scaled (actualizar_escala (Num 1) (self\<lparr>L := (\<lambda>i. map_option (fmul (Num k)) (raw i))\<rparr>)) i"
    by (cases "raw i") (simp_all add: actualizar_escala_def aplicar_escala_def fmul_scale)
qed




text \<open>
  C10. Two configurations with the same scale whose raw lengths agree everywhere
  except at \<open>'h'\<close> give the same snapshot at every crank angle and the same
  trajectory for every count: the solve never reads that length.
\<close>

theorem ternario2_unread:
  assumes "\<forall>k. k \<noteq> ''h'' \<longrightarrow> L s1 k = L s2 k" and "escala s1 = escala s2"
  shows "resolver_cinematica np fsolve (aplicar_escala s1) theta =
           resolver_cinematica np fsolve (aplicar_escala s2) theta
         \<and> calcular_trayectoria np fsolve (aplicar_escala s1) n =
           calcular_trayectoria np fsolve (aplicar_escala s2) n"
proof -
  have eq: "L_scaled (aplicar_escala s1) k = L_scaled (aplicar_escala s2) k"
    if "k \<in> set [''m'', ''n'', ''a'', ''b'', ''c'', ''d'', ''e'', ''f'', ''g'']" for k
  proof -
    from that have "k \<noteq> ''h''" by auto
    with assms show ?thesis by (simp add: aplicar_escala_def)
  qed
  show ?thesis
    using resolver_cinematica_cong [OF eq] calcular_trayectoria_cong [OF eq] by blast
qed

text \<open>Ternary 2 set to 100 in place of 65.7: the scaled length differs, the results do not.\<close>

theorem ternario2_unread_witness:
  "resolver_cinematica trig_real (\<lambda>f x0. Inr x0) (actualizar_longitud ''h'' (Num 100) init) (Num 0) =
     resolver_cinematica trig_real (\<lambda>f x0. Inr x0) (aplicar_escala init) (Num 0)
   \<and> calcular_trayectoria trig_real (\<lambda>f x0. Inr x0) (actualizar_longitud ''h'' (Num 100) init) 360 =
     calcular_trayectoria trig_real (\<lambda>f x0. Inr x0) (aplicar_escala init) 360
   \<and> L_scaled (actualizar_longitud ''h'' (Num 100) init) ''h'' = Some (Num 500)
   \<and> L_scaled (aplicar_escala init) ''h'' = Some (Num 328.5)"
proof -
  have hyp: "\<forall>k. k \<noteq> ''h'' \<longrightarrow> L (init\<lparr>L := (L init)(''h'' \<mapsto> Num 100)\<rparr>) k = L init k"
    by simp
  have vals: "L_scaled (actualizar_longitud ''h'' (Num 100) init) ''h'' = Some (Num 500)"
    "L_scaled (aplicar_escala init) ''h'' = Some (Num 328.5)"
    by (simp_all add: actualizar_longitud_def aplicar_escala_def init_def proporciones_def)
  from ternario2_unread [OF hyp, where np = trig_real and fsolve = "\<lambda>f x0. Inr x0"
      and theta = "Num 0" and n = 360] vals show ?thesis
    by (simp add: actualizar_longitud_def)
qed

subsection \<open>The setters\<close>

text \<open>
  C4 (as amended). The setters validate nothing and report no error. For every link
  identifier and every value, \<open>actualizar_longitud\<close> stores the value as that raw
  length, keeps the scale and recomputes every scaled length; for every value,
  \<open>actualizar_escala\<close> stores it as the scale, keeps the raw lengths and recomputes
  every scaled length.
\<close>

theorem setters_store:
  "L (actualizar_longitud nombre valor self) = (L self)(nombre \<mapsto> valor)
   \<and> escala (actualizar_longitud nombre valor self) = escala self
   \<and> L_scaled (actualizar_longitud nombre valor self) =
       (\<lambda>k. map_option (\<lambda>v. fmul v (escala self)) (((L self)(nombre \<mapsto> valor)) k))
   \<and> L (actualizar_escala valor self) = L self
   \<and> escala (actualizar_escala valor self) = valor
   \<and> L_scaled (actualizar_escala valor self) = (\<lambda>k. map_option (\<lambda>v. fmul v valor) (L self k))"
  by (simp add: actualizar_longitud_def actualizar_escala_def aplicar_escala_def)

text \<open>
  C4 as stated fails. A crank length of -1 is stored and scaled to -5, a NaN length
  is stored, and a scale of -1 is stored and applied, where the object had 38, 190
  and 5 before.
\<close>

theorem setters_accept_counterexample:
  "L (actualizar_longitud ''a'' (Num (- 1)) init) ''a'' = Some (Num (- 1))
   \<and> L_scaled (actualizar_longitud ''a'' (Num (- 1)) init) ''a'' = Some (Num (- 5))
   \<and> L init ''a'' = Some (Num 38)
   \<and> L_scaled init ''a'' = Some (Num 190)
   \<and> L (actualizar_longitud ''a'' NaN init) ''a'' = Some NaN
   \<and> escala (actualizar_escala (Num (- 1)) init) = Num (- 1)
   \<and> L_scaled (actualizar_escala (Num (- 1)) init) ''a'' = Some (Num (- 38))
   \<and> escala init = Num 5"
  by (simp add: actualizar_longitud_def actualizar_escala_def aplicar_escala_def init_def
      proporciones_def)

subsection \<open>The step metrics\<close>

text \<open>
  C5 (as amended). For every trajectory that is not empty, the step length is the
  maximum minus the minimum of the defined x entries, divided by 10, and the step
  height is the maximum of the defined y entries, divided by 10; NaN entries are left
  out, not read as zero. Each metric is NaN only when its column has no defined entry
  at all; a single defined sample gives a step length of 0 and its own height.
\<close>

theorem paso_metrics:
  assumes "trayectoria \<noteq> []"
  shows "longitud_paso trayectoria =
           Inr (if definidos (map fst trayectoria) = [] then NaN
                else Num ((Max (set (definidos (map fst trayectoria)))
                           - Min (set (definidos (map fst trayectoria)))) / 10))
         \<and> altura_paso trayectoria =
           Inr (if definidos (map snd trayectoria) = [] then NaN
                else Num (Max (set (definidos (map snd trayectoria))) / 10))"
  using assms
  by (simp add: longitud_paso_def altura_paso_def columna_def nanmax_eq nanmin_eq)

theorem paso_metrics_witness:
  "longitud_paso [(Num 3, Num 7), (NaN, NaN), (Num (-2), Num 4)] = Inr (Num (1 / 2))
   \<and> altura_paso [(Num 3, Num 7), (NaN, NaN), (Num (-2), Num 4)] = Inr (Num (7 / 10))
   \<and> longitud_paso [(NaN, NaN), (NaN, NaN)] = Inr NaN
   \<and> altura_paso [(NaN, NaN), (NaN, NaN)] = Inr NaN"
  using paso_metrics [of "[(Num 3, Num 7), (NaN, NaN), (Num (-2), Num 4)]"]
    paso_metrics [of "[(NaN, NaN), (NaN, NaN)]"]
  by simp

text \<open>
  C5 as stated fails. With one defined sample out of two, fewer than the two the
  claim asks for, both metrics are defined: the step length is 0 and the step height
  is 0.7.
\<close>

theorem single_sample_counterexample:
  "longitud_paso [(NaN, NaN), (Num 3, Num 7)] = Inr (Num 0)
   \<and> altura_paso [(NaN, NaN), (Num 3, Num 7)] = Inr (Num (7 / 10))
   \<and> definidos (map fst [(NaN, NaN), (Num 3, Num 7)]) = [3]
   \<and> definidos (map snd [(NaN, NaN), (Num 3, Num 7)]) = [7]"
  by (simp add: longitud_paso_def altura_paso_def columna_def nanmax_def nanmin_def)

end

